theory Spec2Isabelle
  imports Main
begin

section \<open>Python values and exceptions\<close>

text \<open>
  The program is a Python script (\<^verbatim>\<open>link_checker.py\<close>). Strings are modelled as
  \<^typ>\<open>string\<close>, lists as HOL lists, the dictionary \<^verbatim>\<open>scraped_links\<close> as a map.
  Every exception the script can let escape is a value of \<open>error\<close>; a function
  that can raise returns \<open>error + 'a\<close> with \<open>Inl\<close> for the exception.
  Printing (\<^verbatim>\<open>print\<close>, \<^verbatim>\<open>verbose_print\<close>, \<^verbatim>\<open>output_write\<close>) changes neither
  the cache, nor the error flag, nor the control flow, and is left out; so are the
  variables that only steer printing (\<^verbatim>\<open>verbose\<close>, \<^verbatim>\<open>output_err\<close>,
  \<^verbatim>\<open>caught_errors\<close>).
\<close>

datatype error =
    IndexError          \<comment> \<open>sequence index out of range\<close>
  | KeyError            \<comment> \<open>\<^verbatim>\<open>link["href"]\<close> on a tag without that attribute\<close>
  | NameError           \<comment> \<open>a global read before its first assignment\<close>
  | ValueError          \<comment> \<open>raised by \<^verbatim>\<open>urlsplit\<close> on a malformed bracketed host\<close>
  | RequestException    \<comment> \<open>any exception of \<^verbatim>\<open>requests.get\<close> other than \<^verbatim>\<open>Timeout\<close>\<close>

text \<open>\<^verbatim>\<open>xs[i]\<close> for a non-negative index and \<^verbatim>\<open>xs[-1]\<close>.\<close>

definition py_index :: "'a list \<Rightarrow> nat \<Rightarrow> error + 'a" where
  "py_index xs i = (if i < length xs then Inr (xs ! i) else Inl IndexError)"

definition py_last :: "'a list \<Rightarrow> error + 'a" where
  "py_last xs = (case xs of [] \<Rightarrow> Inl IndexError | _ # _ \<Rightarrow> Inr (last xs))"

text \<open>\<^verbatim>\<open>s.split(sep)\<close> for a one-character separator: always at least one part.\<close>

fun split_str :: "char \<Rightarrow> string \<Rightarrow> string list" where
  "split_str sep [] = [[]]"
| "split_str sep (c # cs) =
     (if c = sep then [] # split_str sep cs
      else (case split_str sep cs of
              [] \<Rightarrow> [[c]]
            | p # ps \<Rightarrow> (c # p) # ps))"

text \<open>\<^verbatim>\<open>s.startswith(p)\<close>.\<close>

definition startswith :: "string \<Rightarrow> string \<Rightarrow> bool" where
  "startswith s p = (take (length p) s = p)"

section \<open>The Base-URL Deriver: \<^verbatim>\<open>create_base_link\<close>\<close>

definition create_base_link :: "string \<Rightarrow> error + string" where
  "create_base_link filename =
    (let base = ''https://creativecommons.org'';
         parts = split_str CHR ''_'' filename
     in case py_index parts 0 of Inl e \<Rightarrow> Inl e | Inr part0 \<Rightarrow>
        let extra = (if part0 = ''samplingplus'' then ''/licenses/sampling+''
                     else if startswith part0 ''zero'' then ''/publicdomain/'' @ part0
                     else ''/licenses/'' @ part0)
        in case py_index parts 1 of Inl e \<Rightarrow> Inl e | Inr part1 \<Rightarrow>
           let extra1 = extra @ ''/'' @ part1
           in if part0 = ''samplingplus'' \<and> length parts = 3 then
                (case py_index parts 2 of Inl e \<Rightarrow> Inl e | Inr part2 \<Rightarrow>
                   Inr (base @ extra1 @ ''/'' @ part2 @ ''/legalcode''))
              else
                (case (if length parts = 4
                       then (case py_index parts 2 of Inl e \<Rightarrow> Inl e
                             | Inr part2 \<Rightarrow> Inr (extra1 @ ''/'' @ part2))
                       else Inr extra1) of
                   Inl e \<Rightarrow> Inl e
                 | Inr extra2 \<Rightarrow>
                     let extra3 = extra2 @ ''/legalcode''
                     in (case (if 3 \<le> length parts
                               then (case py_last parts of Inl e \<Rightarrow> Inl e
                                     | Inr lastpart \<Rightarrow> Inr (extra3 @ ''.'' @ lastpart))
                               else Inr extra3) of
                           Inl e \<Rightarrow> Inl e
                         | Inr extra4 \<Rightarrow> Inr (base @ extra4))))"

section \<open>The URL library: \<^verbatim>\<open>urllib.parse\<close>\<close>

text \<open>
  The script imports \<^verbatim>\<open>urlsplit\<close> and \<^verbatim>\<open>urljoin\<close> from the standard library and calls
  \<^verbatim>\<open>geturl\<close> on a split result. The script's own functions below take these as the
  fields of a \<open>library\<close> record, so every theorem about them holds for whatever the
  installed library computes. For runs on concrete input this section gives a model of
  the library's algorithms (CPython 3.11, \<^verbatim>\<open>urllib/parse.py\<close>) on byte strings. Two
  checks of \<^verbatim>\<open>urlsplit\<close> are outside the model: the validation of a host in balanced
  brackets by the \<^verbatim>\<open>ipaddress\<close> module, and the NFKC check of a non-ASCII host.
\<close>

record split_result =
  scheme :: string
  netloc :: string
  path :: string
  query :: string
  fragment :: string

definition uses_relative :: "string list" where
  "uses_relative = ['''', ''ftp'', ''http'', ''gopher'', ''nntp'', ''imap'',
     ''wais'', ''file'', ''https'', ''shttp'', ''mms'', ''prospero'', ''rtsp'', ''rtsps'',
     ''rtspu'', ''sftp'', ''svn'', ''svn+ssh'', ''ws'', ''wss'']"

definition uses_netloc :: "string list" where
  "uses_netloc = ['''', ''ftp'', ''http'', ''gopher'', ''nntp'', ''telnet'',
     ''imap'', ''wais'', ''file'', ''mms'', ''https'', ''shttp'', ''snews'', ''prospero'',
     ''rtsp'', ''rtsps'', ''rtspu'', ''rsync'', ''svn'', ''svn+ssh'', ''sftp'', ''nfs'',
     ''git'', ''git+ssh'', ''ws'', ''wss'']"

definition uses_params :: "string list" where
  "uses_params = ['''', ''ftp'', ''hdl'', ''prospero'', ''http'', ''imap'',
     ''https'', ''shttp'', ''rtsp'', ''rtsps'', ''rtspu'', ''sip'', ''sips'', ''mms'',
     ''sftp'', ''tel'']"

definition scheme_chars :: string where
  "scheme_chars = ''abcdefghijklmnopqrstuvwxyzABCDEFGHIJKLMNOPQRSTUVWXYZ0123456789+-.''"

definition is_c0_or_space :: "char \<Rightarrow> bool" where
  "is_c0_or_space c = (of_char c \<le> (32::nat))"

definition is_unsafe_byte :: "char \<Rightarrow> bool" where
  "is_unsafe_byte c = (of_char c \<in> {9, 10, 13::nat})"

definition is_ascii_alpha :: "char \<Rightarrow> bool" where
  "is_ascii_alpha c = (let n = of_char c :: nat in (65 \<le> n \<and> n \<le> 90) \<or> (97 \<le> n \<and> n \<le> 122))"

definition lower_char :: "char \<Rightarrow> char" where
  "lower_char c = (let n = of_char c :: nat in if 65 \<le> n \<and> n \<le> 90 then char_of (n + 32) else c)"

text \<open>\<^verbatim>\<open>s.partition(sep)\<close> without the separator: the text before the first \<open>sep\<close>
  and the text after it.\<close>

definition cut_at :: "char \<Rightarrow> string \<Rightarrow> string \<times> string" where
  "cut_at sep s = (takeWhile (\<lambda>c. c \<noteq> sep) s, drop 1 (dropWhile (\<lambda>c. c \<noteq> sep) s))"

definition py_urlsplit_default :: "string \<Rightarrow> string \<Rightarrow> error + split_result" where
  "py_urlsplit_default default_scheme url0 =
    (let url1 = filter (\<lambda>c. \<not> is_unsafe_byte c) (dropWhile is_c0_or_space url0);
         scheme0 = filter (\<lambda>c. \<not> is_unsafe_byte c)
                     (rev (dropWhile is_c0_or_space (rev (dropWhile is_c0_or_space default_scheme))));
         pre = takeWhile (\<lambda>c. c \<noteq> CHR '':'') url1;
         has_scheme = (CHR '':'' \<in> set url1 \<and> pre \<noteq> [] \<and> is_ascii_alpha (hd url1)
                       \<and> list_all (\<lambda>c. c \<in> set scheme_chars) pre);
         scheme1 = (if has_scheme then map lower_char pre else scheme0);
         url2 = (if has_scheme then drop (Suc (length pre)) url1 else url1);
         has_netloc = (take 2 url2 = ''//'');
         netloc1 = (if has_netloc then takeWhile (\<lambda>c. c \<notin> set ''/?#'') (drop 2 url2) else '''');
         url3 = (if has_netloc then dropWhile (\<lambda>c. c \<notin> set ''/?#'') (drop 2 url2) else url2)
     in if (CHR ''['' \<in> set netloc1) \<noteq> (CHR '']'' \<in> set netloc1) then Inl ValueError
        else
          let fragment1 = (if CHR ''#'' \<in> set url3 then snd (cut_at CHR ''#'' url3) else '''');
              url4 = (if CHR ''#'' \<in> set url3 then fst (cut_at CHR ''#'' url3) else url3);
              query1 = (if CHR ''?'' \<in> set url4 then snd (cut_at CHR ''?'' url4) else '''');
              url5 = (if CHR ''?'' \<in> set url4 then fst (cut_at CHR ''?'' url4) else url4)
          in Inr \<lparr>scheme = scheme1, netloc = netloc1, path = url5,
                  query = query1, fragment = fragment1\<rparr>)"

definition py_urlsplit :: "string \<Rightarrow> error + split_result" where
  "py_urlsplit url = py_urlsplit_default '''' url"

definition py_urlunsplit :: "split_result \<Rightarrow> string" where
  "py_urlunsplit r =
    (let url0 = path r;
         url1 = (if netloc r \<noteq> '''' \<or> (scheme r \<noteq> '''' \<and> scheme r \<in> set uses_netloc)
                    \<or> take 2 url0 = ''//''
                 then ''//'' @ netloc r @ (if url0 \<noteq> '''' \<and> take 1 url0 \<noteq> ''/'' then ''/'' @ url0 else url0)
                 else url0);
         url2 = (if scheme r \<noteq> '''' then scheme r @ '':'' @ url1 else url1);
         url3 = (if query r \<noteq> '''' then url2 @ ''?'' @ query r else url2)
     in if fragment r \<noteq> '''' then url3 @ ''#'' @ fragment r else url3)"

text \<open>\<^verbatim>\<open>_splitparams\<close>, called on a path that contains \<open>;\<close>.\<close>

definition splitparams :: "string \<Rightarrow> string \<times> string" where
  "splitparams url =
    (if CHR ''/'' \<in> set url then
       let upto_slash = rev (dropWhile (\<lambda>c. c \<noteq> CHR ''/'') (rev url));
           after_slash = rev (takeWhile (\<lambda>c. c \<noteq> CHR ''/'') (rev url))
       in if CHR '';'' \<in> set after_slash
          then (upto_slash @ fst (cut_at CHR '';'' after_slash), snd (cut_at CHR '';'' after_slash))
          else (url, '''')
     else cut_at CHR '';'' url)"

text \<open>\<^verbatim>\<open>urlparse\<close>: the split result with the parameters taken off the path.\<close>

definition py_urlparse :: "string \<Rightarrow> string \<Rightarrow> error + (split_result \<times> string)" where
  "py_urlparse default_scheme url =
    (case py_urlsplit_default default_scheme url of
       Inl e \<Rightarrow> Inl e
     | Inr r \<Rightarrow>
         if scheme r \<in> set uses_params \<and> CHR '';'' \<in> set (path r)
         then Inr (r\<lparr>path := fst (splitparams (path r))\<rparr>, snd (splitparams (path r)))
         else Inr (r, ''''))"

definition py_urlunparse :: "split_result \<Rightarrow> string \<Rightarrow> string" where
  "py_urlunparse r params =
     py_urlunsplit (if params \<noteq> '''' then r\<lparr>path := path r @ '';'' @ params\<rparr> else r)"

fun join_str :: "string \<Rightarrow> string list \<Rightarrow> string" where
  "join_str sep [] = ''''"
| "join_str sep [x] = x"
| "join_str sep (x # y # ys) = x @ sep @ join_str sep (y # ys)"

text \<open>The loop of \<^verbatim>\<open>urljoin\<close> that removes dot segments.\<close>

fun resolve_segments :: "string list \<Rightarrow> string list \<Rightarrow> string list" where
  "resolve_segments resolved [] = resolved"
| "resolve_segments resolved (seg # segs) =
     (if seg = ''..'' then resolve_segments (butlast resolved) segs
      else if seg = ''.'' then resolve_segments resolved segs
      else resolve_segments (resolved @ [seg]) segs)"

definition py_urljoin :: "string \<Rightarrow> string \<Rightarrow> error + string" where
  "py_urljoin base url =
    (if base = '''' then Inr url
     else if url = '''' then Inr base
     else case py_urlparse '''' base of Inl e \<Rightarrow> Inl e | Inr (b, bparams) \<Rightarrow>
          case py_urlparse (scheme b) url of Inl e \<Rightarrow> Inl e | Inr (u, params) \<Rightarrow>
          if scheme u \<noteq> scheme b \<or> scheme u \<notin> set uses_relative then Inr url
          else if scheme u \<in> set uses_netloc \<and> netloc u \<noteq> '''' then Inr (py_urlunparse u params)
          else
            let netloc1 = (if scheme u \<in> set uses_netloc then netloc b else netloc u)
            in if path u = '''' \<and> params = '''' then
                 Inr (py_urlunparse
                        (u\<lparr>netloc := netloc1, path := path b,
                           query := (if query u = '''' then query b else query u)\<rparr>) bparams)
               else
                 let base_parts0 = split_str CHR ''/'' (path b);
                     base_parts = (if last base_parts0 \<noteq> '''' then butlast base_parts0 else base_parts0);
                     segments0 = base_parts @ split_str CHR ''/'' (path u);
                     segments = (if take 1 (path u) = ''/'' then split_str CHR ''/'' (path u)
                                 else if 2 \<le> length segments0
                                 then hd segments0 # filter (\<lambda>s. s \<noteq> '''') (butlast (tl segments0))
                                        @ [last segments0]
                                 else segments0);
                     resolved0 = resolve_segments [] segments;
                     resolved = (if last segments \<in> set [''.'', ''..''] then resolved0 @ [''''] else resolved0);
                     joined = join_str ''/'' resolved
                 in Inr (py_urlunparse
                           (u\<lparr>netloc := netloc1, path := (if joined = '''' then ''/'' else joined)\<rparr>)
                           params))"

section \<open>The outside world\<close>

text \<open>
  A check result is what \<^verbatim>\<open>scrape\<close> returns: a number (the HTTP status code) or a
  string. \<open>truthy\<close> is Python's truth value, which \<^verbatim>\<open>if status:\<close> tests.
\<close>

datatype status = Code int | Text string

definition truthy :: "status \<Rightarrow> bool" where
  "truthy s = (case s of Code n \<Rightarrow> n \<noteq> 0 | Text t \<Rightarrow> t \<noteq> '''')"

text \<open>
  What one call \<^verbatim>\<open>requests.get(href, headers=header, timeout=10)\<close> does: it returns a
  response with a status code, raises \<^verbatim>\<open>requests.exceptions.Timeout\<close>, or raises
  something else, which \<^verbatim>\<open>get_status\<close> does not catch.
\<close>

datatype net_outcome = Response int | Timeout | Failure

text \<open>
  The collaborators of the script. The network answers a request by its position in the
  run (the number of requests made before it) and its URL, so the same URL may be
  answered differently at different times.
\<close>

record library =
  urlsplit :: "string \<Rightarrow> error + split_result"
  urljoin :: "string \<Rightarrow> string \<Rightarrow> error + string"
  geturl :: "split_result \<Rightarrow> string"
  requests_get :: "nat \<Rightarrow> string \<Rightarrow> net_outcome"

definition py_lib :: "(nat \<Rightarrow> string \<Rightarrow> net_outcome) \<Rightarrow> library" where
  "py_lib net = \<lparr>urlsplit = py_urlsplit, urljoin = py_urljoin, geturl = py_urlunsplit,
                  requests_get = net\<rparr>"

text \<open>
  The network never reports the status code 0: \<^verbatim>\<open>http.client\<close> rejects a
  status line whose code is not between 100 and 999.
\<close>

definition wf_net :: "library \<Rightarrow> bool" where
  "wf_net lib = (\<forall>n url. requests_get lib n url \<noteq> Response 0)"

text \<open>An anchor tag (\<^verbatim>\<open>bs4.element.Tag\<close>): the script reads only its \<^verbatim>\<open>href\<close>.\<close>

record anchor =
  attr_href :: "string option"

text \<open>
  A file of the listing: \<^verbatim>\<open>licens.string\<close>, and what fetching and parsing its page
  gives (the anchors of the page, or the exception of the fetch).
\<close>

record document =
  doc_name :: string
  doc_page :: "error + anchor list"

section \<open>The script's state\<close>

text \<open>
  The module-level variables \<^verbatim>\<open>err_code\<close>, \<^verbatim>\<open>scraped_links\<close> and \<^verbatim>\<open>base_url\<close> (unbound
  until the main loop assigns it), and three traces that the script does not have and
  that only record what it did: the arguments of the calls of \<^verbatim>\<open>scrape\<close>, the URLs of the
  calls of \<^verbatim>\<open>requests.get\<close> made by \<^verbatim>\<open>get_status\<close>, and the links with the status that
  \<^verbatim>\<open>check_existing\<close> returned for them to the main loop.
\<close>

record state =
  err_code :: int
  scraped_links :: "string \<rightharpoonup> status"
  base_url :: "string option"
  scrape_calls :: "string list"
  get_calls :: "string list"
  checked :: "(anchor \<times> status) list"

definition init_state :: state where
  "init_state = \<lparr>err_code = 0, scraped_links = Map.empty, base_url = None,
                  scrape_calls = [], get_calls = [], checked = []\<rparr>"

section \<open>The URL Resolver, the Status Checker and the Link Cache\<close>

definition create_absolute_link ::
  "library \<Rightarrow> state \<Rightarrow> split_result \<Rightarrow> string \<Rightarrow> error + string" where
  "create_absolute_link lib st link_analysis href =
    (if scheme link_analysis = '''' \<and> netloc link_analysis = '''' \<and> path link_analysis \<noteq> ''''
     then (case base_url st of None \<Rightarrow> Inl NameError | Some b \<Rightarrow> urljoin lib b href)
     else Inr href)"

definition get_status :: "library \<Rightarrow> string \<Rightarrow> state \<Rightarrow> (error + status) \<times> state" where
  "get_status lib href st =
    (let st1 = st\<lparr>get_calls := get_calls st @ [href]\<rparr>
     in case requests_get lib (length (get_calls st)) href of
          Timeout \<Rightarrow> (Inr (Text ''Timeout Error''), st1)
        | Response status_code \<Rightarrow> (Inr (Code status_code), st1)
        | Failure \<Rightarrow> (Inl RequestException, st1))"

definition scrape :: "library \<Rightarrow> string \<Rightarrow> state \<Rightarrow> (error + status) \<times> state" where
  "scrape lib href st =
    (let st1 = st\<lparr>scrape_calls := scrape_calls st @ [href]\<rparr>
     in case urlsplit lib href of
          Inl e \<Rightarrow> (Inl e, st1)
        | Inr analyse \<Rightarrow>
            if scheme analyse = '''' \<or> scheme analyse \<in> set [''https'', ''http''] then
              let analyse1 = (if scheme analyse = '''' then analyse\<lparr>scheme := ''https''\<rparr>
                              else analyse)
              in get_status lib (geturl lib analyse1) st1
            else if scheme analyse = ''mailto'' then (Inr (Text ''ignore''), st1)
            else (Inr (Text ''Invalid protocol detected''), st1))"

text \<open>Lines 79 to 81: the branch of \<^verbatim>\<open>check_existing\<close> that asks \<^verbatim>\<open>scrape\<close>.\<close>

definition scrape_and_store :: "library \<Rightarrow> string \<Rightarrow> state \<Rightarrow> (error + status) \<times> state" where
  "scrape_and_store lib href st =
    (case scrape lib href st of
       (Inl e, st1) \<Rightarrow> (Inl e, st1)
     | (Inr status, st1) \<Rightarrow>
         (Inr status, st1\<lparr>scraped_links := (scraped_links st1)(href \<mapsto> status)\<rparr>))"

text \<open>
  The parameter \<^verbatim>\<open>base_url\<close> of \<^verbatim>\<open>check_existing\<close> is \<open>base_url_arg\<close> here; the body
  never reads it, and \<^verbatim>\<open>create_absolute_link\<close> reads the global of the same name.
\<close>

definition check_existing ::
  "library \<Rightarrow> anchor \<Rightarrow> string \<Rightarrow> state \<Rightarrow> (error + status) \<times> state" where
  "check_existing lib link base_url_arg st =
    (case attr_href link of
       None \<Rightarrow> (Inl KeyError, st)
     | Some href \<Rightarrow>
         (case urlsplit lib href of
            Inl e \<Rightarrow> (Inl e, st)
          | Inr analyse \<Rightarrow>
              (case create_absolute_link lib st analyse href of
                 Inl e \<Rightarrow> (Inl e, st)
               | Inr href1 \<Rightarrow>
                   (case scraped_links st href1 of
                      None \<Rightarrow> scrape_and_store lib href1 st
                    | Some status \<Rightarrow>
                        if truthy status then (Inr status, st)
                        else scrape_and_store lib href1 st))))"

section \<open>The main loop\<close>

text \<open>The body of the loop over the anchors of one page (lines 184 to 202).\<close>

definition check_link :: "library \<Rightarrow> anchor \<Rightarrow> state \<Rightarrow> (error + unit) \<times> state" where
  "check_link lib link st =
    (case attr_href link of
       None \<Rightarrow> (Inr (), st)
     | Some href \<Rightarrow>
         (case py_index href 0 of
            Inl e \<Rightarrow> (Inl e, st)
          | Inr c \<Rightarrow>
              if c = CHR ''#'' then (Inr (), st)
              else (case base_url st of
                      None \<Rightarrow> (Inl NameError, st)
                    | Some b \<Rightarrow>
                        (case check_existing lib link b st of
                           (Inl e, st1) \<Rightarrow> (Inl e, st1)
                         | (Inr status, st1) \<Rightarrow>
                             let st2 = st1\<lparr>checked := checked st1 @ [(link, status)]\<rparr>
                             in if status \<notin> set [Code 200, Text ''ignore'']
                                then (Inr (), st2\<lparr>err_code := 1\<rparr>)
                                else (Inr (), st2)))))"

fun links_loop :: "library \<Rightarrow> anchor list \<Rightarrow> state \<Rightarrow> (error + unit) \<times> state" where
  "links_loop lib [] st = (Inr (), st)"
| "links_loop lib (link # links) st =
     (case check_link lib link st of
        (Inl e, st1) \<Rightarrow> (Inl e, st1)
      | (Inr _, st1) \<Rightarrow> links_loop lib links st1)"

text \<open>The body of the loop over the files of the listing (lines 167 to 202).\<close>

definition check_document :: "library \<Rightarrow> document \<Rightarrow> state \<Rightarrow> (error + unit) \<times> state" where
  "check_document lib licens st =
    (let check_extension = split_str CHR ''.'' (doc_name licens)
     in case py_last check_extension of
          Inl e \<Rightarrow> (Inl e, st)
        | Inr ext \<Rightarrow>
            if ext \<noteq> ''html'' then (Inr (), st)
            else
              let filename = take (length (doc_name licens) - 5) (doc_name licens)
              in case create_base_link filename of
                   Inl e \<Rightarrow> (Inl e, st)
                 | Inr b \<Rightarrow>
                     let st1 = st\<lparr>base_url := Some b\<rparr>
                     in case doc_page licens of
                          Inl e \<Rightarrow> (Inl e, st1)
                        | Inr links_in_license \<Rightarrow> links_loop lib links_in_license st1)"

fun documents_loop :: "library \<Rightarrow> document list \<Rightarrow> state \<Rightarrow> (error + unit) \<times> state" where
  "documents_loop lib [] st = (Inr (), st)"
| "documents_loop lib (licens # all_links) st =
     (case check_document lib licens st of
        (Inl e, st1) \<Rightarrow> (Inl e, st1)
      | (Inr _, st1) \<Rightarrow> documents_loop lib all_links st1)"

text \<open>
  The whole run on the listing \<open>all_links\<close>: an exception that escapes, or the status
  that \<^verbatim>\<open>sys.exit(err_code)\<close> gives the process; with the final state.
\<close>

definition main :: "library \<Rightarrow> document list \<Rightarrow> (error + int) \<times> state" where
  "main lib all_links =
    (case documents_loop lib all_links init_state of
       (Inl e, st) \<Rightarrow> (Inl e, st)
     | (Inr _, st) \<Rightarrow> (Inr (err_code st), st))"


section \<open>Notions used to state the properties\<close>

text \<open>
  The state of the cache between two calls of \<^verbatim>\<open>check_existing\<close>: no URL was given to
  \<^verbatim>\<open>scrape\<close> twice, every URL given to it has an entry, and every stored status counts
  as true in Python.
\<close>

definition cache_inv :: "state \<Rightarrow> bool" where
  "cache_inv st = (distinct (scrape_calls st)
                   \<and> set (scrape_calls st) \<subseteq> dom (scraped_links st)
                   \<and> (\<forall>k v. scraped_links st k = Some v \<longrightarrow> truthy v))"

text \<open>
  An anchor whose \<^verbatim>\<open>href\<close> begins with \<open>#\<close>, and a document with these anchors taken
  off its page.
\<close>

definition is_fragment_link :: "anchor \<Rightarrow> bool" where
  "is_fragment_link link = (case attr_href link of Some (c # _) \<Rightarrow> c = CHR ''#'' | _ \<Rightarrow> False)"

definition without_fragment_links :: "document \<Rightarrow> document" where
  "without_fragment_links licens =
     licens\<lparr>doc_page := map_sum id (filter (\<lambda>link. \<not> is_fragment_link link)) (doc_page licens)\<rparr>"

text \<open>
  A status that the main loop reports as an error, and the state of the error flag
  between two links: it is 1 if a reported status was returned so far, else 0.
\<close>

definition broken :: "status \<Rightarrow> bool" where
  "broken status = (status \<notin> set [Code 200, Text ''ignore''])"

definition flag_inv :: "state \<Rightarrow> bool" where
  "flag_inv st = (err_code st = (if list_ex (\<lambda>p. broken (snd p)) (checked st) then 1 else 0))"

section \<open>Sample inputs\<close>

text \<open>
  A base URL, a state in which the main loop has assigned it, a network that answers
  404 for one URL, times out for another and answers 200 otherwise, and a page with a
  fragment link, a relative link that occurs twice, a mail link, a broken link and an
  anchor without \<^verbatim>\<open>href\<close>.
\<close>

definition sample_base :: string where
  "sample_base = ''https://creativecommons.org/licenses/by/4.0/legalcode''"

definition sample_state :: state where
  "sample_state = init_state\<lparr>base_url := Some sample_base\<rparr>"

definition sample_net :: "nat \<Rightarrow> string \<Rightarrow> net_outcome" where
  "sample_net n url =
     (if url = ''https://creativecommons.org/missing'' then Response 404
      else if url = ''https://slow.example.org/'' then Timeout
      else Response 200)"

definition sample_document :: document where
  "sample_document =
     \<lparr>doc_name = ''by_4.0.html'',
      doc_page = Inr [\<lparr>attr_href = Some ''#top''\<rparr>,
                      \<lparr>attr_href = Some ''/about''\<rparr>,
                      \<lparr>attr_href = Some ''/about''\<rparr>,
                      \<lparr>attr_href = Some ''mailto:info@creativecommons.org''\<rparr>,
                      \<lparr>attr_href = Some ''/missing''\<rparr>,
                      \<lparr>attr_href = None\<rparr>]\<rparr>"



section \<open>Properties of the Base-URL Deriver\<close>

lemma split_str_not_Nil: "split_str sep s \<noteq> []"
  by (induction s) (auto split: list.splits)

lemma length_split_str:
  "length (split_str sep s) = Suc (length (filter (\<lambda>c. c = sep) s))"
  by (induction s) (auto split: list.splits simp: split_str_not_Nil)

lemma split_str_single: "length (split_str sep s) < 2 \<longleftrightarrow> sep \<notin> set s"
  by (auto simp: length_split_str filter_empty_conv)

lemma py_last_nonempty: "xs \<noteq> [] \<Longrightarrow> py_last xs = Inr (last xs)"
  by (cases xs) (simp_all add: py_last_def)

lemma create_base_link_two_parts:
  assumes "2 \<le> length (split_str CHR ''_'' filename)"
  shows "\<exists>url. create_base_link filename = Inr url"
proof -
  let ?parts = "split_str CHR ''_'' filename"
  have "?parts \<noteq> []" by (rule split_str_not_Nil)
  then have l: "py_last ?parts = Inr (last ?parts)" by (rule py_last_nonempty)
  have i0: "py_index ?parts 0 = Inr (?parts ! 0)"
   and i1: "py_index ?parts (Suc 0) = Inr (?parts ! 1)"
    using assms by (simp_all add: py_index_def split_str_not_Nil)
  have i2: "length ?parts = 3 \<Longrightarrow> py_index ?parts 2 = Inr (?parts ! 2)"
   and i2': "length ?parts = 4 \<Longrightarrow> py_index ?parts 2 = Inr (?parts ! 2)"
    by (simp_all add: py_index_def)
  show ?thesis
    by (simp add: create_base_link_def Let_def i0 i1 i2 i2' l)
qed

text \<open>
  Claim C3. The golden cases of the Base-URL Deriver: \<^verbatim>\<open>by_4.0\<close>,
  \<^verbatim>\<open>by-sa_4.0_fr\<close>, the three-part \<^verbatim>\<open>samplingplus_1.0_us\<close> and \<^verbatim>\<open>zero_1.0\<close> map to
  the four URLs the specification lists.
\<close>

theorem create_base_link_golden:
  "create_base_link ''by_4.0'' = Inr ''https://creativecommons.org/licenses/by/4.0/legalcode''
   \<and> create_base_link ''by-sa_4.0_fr''
       = Inr ''https://creativecommons.org/licenses/by-sa/4.0/legalcode.fr''
   \<and> split_str CHR ''_'' ''samplingplus_1.0_us'' = [''samplingplus'', ''1.0'', ''us'']
   \<and> create_base_link ''samplingplus_1.0_us''
       = Inr ''https://creativecommons.org/licenses/sampling+/1.0/us/legalcode''
   \<and> create_base_link ''zero_1.0''
       = Inr ''https://creativecommons.org/publicdomain/zero/1.0/legalcode''"
  by (simp add: create_base_link_def py_index_def py_last_def startswith_def)

text \<open>
  Claim C10. \<^verbatim>\<open>create_base_link\<close> indexes \<^verbatim>\<open>parts[1]\<close> unconditionally: a filename
  without an underscore splits into a single part and the function raises IndexError
  instead of returning a URL; with at least one underscore it returns a URL.
\<close>

theorem create_base_link_needs_underscore:
  "(CHR ''_'' \<notin> set filename \<longrightarrow>
      length (split_str CHR ''_'' filename) = 1 \<and> create_base_link filename = Inl IndexError)
   \<and> (CHR ''_'' \<in> set filename \<longrightarrow> (\<exists>url. create_base_link filename = Inr url))"
proof (intro conjI impI)
  assume no: "CHR ''_'' \<notin> set filename"
  then have len: "length (split_str CHR ''_'' filename) < 2"
    by (simp add: split_str_single)
  moreover have "split_str CHR ''_'' filename \<noteq> []" by (rule split_str_not_Nil)
  ultimately show "length (split_str CHR ''_'' filename) = 1"
    by (cases "split_str CHR ''_'' filename") auto
  then show "create_base_link filename = Inl IndexError"
    by (simp add: create_base_link_def py_index_def Let_def)
next
  assume "CHR ''_'' \<in> set filename"
  then have "\<not> length (split_str CHR ''_'' filename) < 2"
    by (simp add: split_str_single)
  then have "2 \<le> length (split_str CHR ''_'' filename)" by simp
  then show "\<exists>url. create_base_link filename = Inr url"
    by (rule create_base_link_two_parts)
qed

theorem create_base_link_needs_underscore_witness:
  "CHR ''_'' \<notin> set ''by'' \<and> create_base_link ''by'' = Inl IndexError
   \<and> CHR ''_'' \<in> set ''by_4.0'' \<and> (\<exists>url. create_base_link ''by_4.0'' = Inr url)"
  using create_base_link_needs_underscore [of "''by''"]
        create_base_link_needs_underscore [of "''by_4.0''"]
  by simp

section \<open>Properties of the Link Cache and the main loop\<close>

subsection \<open>What each function changes\<close>

lemma get_status_state:
  "snd (get_status lib href st) = st\<lparr>get_calls := get_calls st @ [href]\<rparr>"
  by (simp add: get_status_def Let_def split: net_outcome.split)

lemma get_status_truthy:
  "wf_net lib \<Longrightarrow> get_status lib href st = (Inr s, st1) \<Longrightarrow> truthy s"
  by (auto simp: get_status_def Let_def wf_net_def truthy_def split: net_outcome.splits)

lemma scrape_truthy:
  "wf_net lib \<Longrightarrow> scrape lib href st = (Inr s, st1) \<Longrightarrow> truthy s"
  by (auto simp: scrape_def Let_def truthy_def split: sum.splits if_splits dest: get_status_truthy)

lemma scrape_fields:
  "scrape_calls (snd (scrape lib href st)) = scrape_calls st @ [href]"
  "scraped_links (snd (scrape lib href st)) = scraped_links st"
  "err_code (snd (scrape lib href st)) = err_code st"
  "base_url (snd (scrape lib href st)) = base_url st"
  "checked (snd (scrape lib href st)) = checked st"
  by (simp_all add: scrape_def Let_def get_status_state split: sum.split)

lemma scrape_and_store_fields:
  "scrape_calls (snd (scrape_and_store lib href st)) = scrape_calls st @ [href]"
  "err_code (snd (scrape_and_store lib href st)) = err_code st"
  "base_url (snd (scrape_and_store lib href st)) = base_url st"
  "checked (snd (scrape_and_store lib href st)) = checked st"
  using scrape_fields [of lib href st]
  by (auto simp: scrape_and_store_def split: prod.split sum.split)

lemma scrape_and_store_cache:
  "scrape_and_store lib href st = (r, st1) \<Longrightarrow>
     scraped_links st1 = (case r of Inl e \<Rightarrow> scraped_links st
                          | Inr status \<Rightarrow> (scraped_links st)(href \<mapsto> status))"
  using scrape_fields(2) [of lib href st]
  by (auto simp: scrape_and_store_def split: prod.splits sum.splits)

lemma check_existing_fields:
  "err_code (snd (check_existing lib link b st)) = err_code st"
  "base_url (snd (check_existing lib link b st)) = base_url st"
  "checked (snd (check_existing lib link b st)) = checked st"
  by (simp_all add: check_existing_def scrape_and_store_fields split: option.split sum.split)


subsection \<open>The cache invariant\<close>

lemma cache_inv_updates [simp]:
  "cache_inv (st\<lparr>checked := c\<rparr>) = cache_inv st"
  "cache_inv (st\<lparr>err_code := e\<rparr>) = cache_inv st"
  "cache_inv (st\<lparr>base_url := u\<rparr>) = cache_inv st"
  by (simp_all add: cache_inv_def)

lemma cache_inv_init: "cache_inv init_state"
  by (simp add: cache_inv_def init_state_def)

lemma scrape_and_store_inv:
  assumes "wf_net lib" and "cache_inv st" and "scraped_links st href = None"
    and "scrape_and_store lib href st = (r, st1)"
  shows "distinct (scrape_calls st1)"
    and "(\<exists>s. r = Inr s) \<longrightarrow> cache_inv st1"
    and "scraped_links st k = Some v \<longrightarrow> scraped_links st1 k = Some v"
proof -
  have calls: "scrape_calls st1 = scrape_calls st @ [href]"
    using scrape_and_store_fields(1) [of lib href st] assms(4) by simp
  have cache: "scraped_links st1 = (case r of Inl e \<Rightarrow> scraped_links st
                                    | Inr status \<Rightarrow> (scraped_links st)(href \<mapsto> status))"
    using assms(4) by (rule scrape_and_store_cache)
  have fresh: "href \<notin> set (scrape_calls st)"
    using assms(2,3) by (auto simp: cache_inv_def)
  show "distinct (scrape_calls st1)"
    using assms(2) calls fresh by (simp add: cache_inv_def)
  show "scraped_links st k = Some v \<longrightarrow> scraped_links st1 k = Some v"
    using cache assms(3) by (auto split: sum.splits)
  show "(\<exists>s. r = Inr s) \<longrightarrow> cache_inv st1"
  proof
    assume "\<exists>s. r = Inr s"
    then obtain s where r: "r = Inr s" ..
    have "truthy s"
      using assms(1,4) r
      by (auto simp: scrape_and_store_def split: prod.splits sum.splits dest: scrape_truthy)
    then show "cache_inv st1"
      using assms(2) calls fresh cache r by (auto simp: cache_inv_def)
  qed
qed

lemma check_existing_inv:
  assumes "wf_net lib" and "cache_inv st" and "check_existing lib link b st = (r, st1)"
  shows "distinct (scrape_calls st1)"
    and "(\<exists>s. r = Inr s) \<longrightarrow> cache_inv st1"
    and "scraped_links st k = Some v \<longrightarrow> scraped_links st1 k = Some v"
  using assms scrape_and_store_inv [OF assms(1,2)]
  by (auto simp: check_existing_def cache_inv_def split: option.splits sum.splits if_splits)

lemma check_link_skips:
  assumes "check_link lib link st = (r, st1)"
    and "attr_href link = None
         \<or> (\<exists>href. attr_href link = Some href
               \<and> (href = [] \<or> hd href = CHR ''#'' \<or> base_url st = None))"
  shows "st1 = st"
  using assms
  by (cases "attr_href link")
     (auto simp: check_link_def py_index_def hd_conv_nth split: option.splits if_splits)

lemma check_link_checks:
  assumes "check_link lib link st = (r, st1)"
    and "attr_href link = Some href" and "href \<noteq> []" and "hd href \<noteq> CHR ''#''"
    and "base_url st = Some b" and "check_existing lib link b st = (r0, st0)"
  shows "(\<exists>e. r0 = Inl e \<and> r = Inl e \<and> st1 = st0)
         \<or> (\<exists>status. r0 = Inr status \<and> r = Inr ()
               \<and> st1 = st0\<lparr>checked := checked st0 @ [(link, status)],
                           err_code := (if status \<notin> set [Code 200, Text ''ignore'']
                                        then 1 else err_code st0)\<rparr>)"
  using assms
  by (cases r0) (auto simp: check_link_def py_index_def hd_conv_nth Let_def)

lemma check_link_inv:
  assumes "wf_net lib" and "cache_inv st" and "check_link lib link st = (r, st1)"
  shows "distinct (scrape_calls st1) \<and> ((\<exists>u. r = Inr u) \<longrightarrow> cache_inv st1)"
proof (cases "attr_href link = None
         \<or> (\<exists>href. attr_href link = Some href
               \<and> (href = [] \<or> hd href = CHR ''#'' \<or> base_url st = None))")
  case True
  from check_link_skips [OF assms(3) True] assms(2) show ?thesis
    by (simp add: cache_inv_def)
next
  case False
  then obtain href b where href: "attr_href link = Some href" "href \<noteq> []"
      "hd href \<noteq> CHR ''#''" and b: "base_url st = Some b"
    by auto
  obtain r0 st0 where call: "check_existing lib link b st = (r0, st0)"
    by (cases "check_existing lib link b st")
  have st0: "distinct (scrape_calls st0)" "(\<exists>s. r0 = Inr s) \<longrightarrow> cache_inv st0"
    using check_existing_inv(1,2) [OF assms(1,2) call] by blast+
  from check_link_checks [OF assms(3) href b call] show ?thesis
  proof (elim disjE exE conjE)
    fix e assume "r0 = Inl e" "r = Inl e" "st1 = st0"
    with st0 show ?thesis by simp
  next
    fix status assume "r0 = Inr status" "r = Inr ()"
      and "st1 = st0\<lparr>checked := checked st0 @ [(link, status)],
                      err_code := (if status \<notin> set [Code 200, Text ''ignore'']
                                   then 1 else err_code st0)\<rparr>"
    with st0 show ?thesis by simp
  qed
qed

lemma links_loop_inv:
  "wf_net lib \<Longrightarrow> cache_inv st \<Longrightarrow> links_loop lib links st = (r, st1) \<Longrightarrow>
     distinct (scrape_calls st1) \<and> ((\<exists>u. r = Inr u) \<longrightarrow> cache_inv st1)"
proof (induction links arbitrary: st)
  case Nil
  then show ?case by (auto simp: cache_inv_def)
next
  case (Cons link links)
  obtain r0 st0 where step: "check_link lib link st = (r0, st0)"
    by (cases "check_link lib link st")
  note inv0 = check_link_inv [OF Cons.prems(1,2) step]
  show ?case
  proof (cases r0)
    case (Inl e)
    with Cons.prems(3) step inv0 show ?thesis by auto
  next
    case (Inr u)
    with Cons.prems(3) step have "links_loop lib links st0 = (r, st1)" by simp
    moreover from Inr inv0 have "cache_inv st0" by simp
    ultimately show ?thesis using Cons.IH Cons.prems(1) by blast
  qed
qed

lemma check_document_cases:
  assumes "check_document lib licens st = (r, st1)"
  shows "st1 = st \<or> (\<exists>b. st1 = st\<lparr>base_url := Some b\<rparr>)
         \<or> (\<exists>b links. links_loop lib links (st\<lparr>base_url := Some b\<rparr>) = (r, st1))"
  using assms
  by (auto simp: check_document_def Let_def split: sum.splits if_splits)

lemma check_document_inv:
  assumes "wf_net lib" and "cache_inv st" and "check_document lib licens st = (r, st1)"
  shows "distinct (scrape_calls st1) \<and> ((\<exists>u. r = Inr u) \<longrightarrow> cache_inv st1)"
proof -
  have d: "distinct (scrape_calls st)" using assms(2) by (simp add: cache_inv_def)
  from check_document_cases [OF assms(3)] show ?thesis
  proof (elim disjE exE)
    assume "st1 = st"
    with assms(2) d show ?thesis by simp
  next
    fix b assume "st1 = st\<lparr>base_url := Some b\<rparr>"
    with assms(2) d show ?thesis by simp
  next
    fix b links assume loop: "links_loop lib links (st\<lparr>base_url := Some b\<rparr>) = (r, st1)"
    have "cache_inv (st\<lparr>base_url := Some b\<rparr>)" using assms(2) by simp
    from links_loop_inv [OF assms(1) this loop] show ?thesis .
  qed
qed

lemma documents_loop_inv:
  "wf_net lib \<Longrightarrow> cache_inv st \<Longrightarrow> documents_loop lib all_links st = (r, st1) \<Longrightarrow>
     distinct (scrape_calls st1) \<and> ((\<exists>u. r = Inr u) \<longrightarrow> cache_inv st1)"
proof (induction all_links arbitrary: st)
  case Nil
  then show ?case by (auto simp: cache_inv_def)
next
  case (Cons licens all_links)
  obtain r0 st0 where step: "check_document lib licens st = (r0, st0)"
    by (cases "check_document lib licens st")
  note inv0 = check_document_inv [OF Cons.prems(1,2) step]
  show ?case
  proof (cases r0)
    case (Inl e)
    with Cons.prems(3) step inv0 show ?thesis by auto
  next
    case (Inr u)
    with Cons.prems(3) step have "documents_loop lib all_links st0 = (r, st1)" by simp
    moreover from Inr inv0 have "cache_inv st0" by simp
    ultimately show ?thesis using Cons.IH Cons.prems(1) by blast
  qed
qed

lemma main_scrape_calls_distinct:
  assumes "wf_net lib"
  shows "distinct (scrape_calls (snd (main lib all_links)))"
proof -
  obtain r st1 where run: "documents_loop lib all_links init_state = (r, st1)"
    by (cases "documents_loop lib all_links init_state")
  from documents_loop_inv [OF assms cache_inv_init run]
  have "distinct (scrape_calls st1)" by simp
  then show ?thesis using run by (simp add: main_def split: sum.split)
qed

subsection \<open>The error flag\<close>

lemma flag_inv_base_url [simp]: "flag_inv (st\<lparr>base_url := u\<rparr>) = flag_inv st"
  by (simp add: flag_inv_def)








subsection \<open>Fragment links\<close>

lemma check_link_fragment:
  "is_fragment_link link \<Longrightarrow> check_link lib link st = (Inr (), st)"
  by (auto simp: is_fragment_link_def check_link_def py_index_def
           split: option.splits list.splits)

lemma links_loop_without_fragments:
  "links_loop lib (filter (\<lambda>link. \<not> is_fragment_link link) links) st = links_loop lib links st"
  by (induction links arbitrary: st) (simp_all add: check_link_fragment split: prod.split sum.split)

lemma check_document_without_fragments:
  "check_document lib (without_fragment_links licens) st = check_document lib licens st"
  by (cases "doc_page licens")
     (simp_all add: check_document_def without_fragment_links_def Let_def
         links_loop_without_fragments split: sum.split)

lemma documents_loop_without_fragments:
  "documents_loop lib (map without_fragment_links all_links) st = documents_loop lib all_links st"
  by (induction all_links arbitrary: st)
     (simp_all add: check_document_without_fragments split: prod.split sum.split)

section \<open>The claims about the resolver, the cache and the main loop\<close>

text \<open>
  Claim C5. When the parsed scheme and network location of the href are empty and its
  path is not, \<^verbatim>\<open>create_absolute_link\<close> returns \<^verbatim>\<open>urljoin\<close> of the base URL and the
  href; for every other href it returns the href unchanged.
\<close>

theorem create_absolute_link_joins_relative:
  "(scheme link_analysis = '''' \<and> netloc link_analysis = '''' \<and> path link_analysis \<noteq> ''''
      \<and> base_url st = Some b \<longrightarrow>
        create_absolute_link lib st link_analysis href = urljoin lib b href)
   \<and> (scheme link_analysis \<noteq> '''' \<or> netloc link_analysis \<noteq> '''' \<or> path link_analysis = ''''
        \<longrightarrow> create_absolute_link lib st link_analysis href = Inr href)"
  by (auto simp: create_absolute_link_def)

theorem create_absolute_link_joins_relative_witness:
  "py_urlsplit ''/about''
     = Inr \<lparr>scheme = '''', netloc = '''', path = ''/about'', query = '''', fragment = ''''\<rparr>
   \<and> base_url sample_state = Some sample_base
   \<and> create_absolute_link (py_lib sample_net) sample_state
        \<lparr>scheme = '''', netloc = '''', path = ''/about'', query = '''', fragment = ''''\<rparr> ''/about''
       = Inr ''https://creativecommons.org/about''
   \<and> py_urlsplit ''//example.org/x''
     = Inr \<lparr>scheme = '''', netloc = ''example.org'', path = ''/x'', query = '''', fragment = ''''\<rparr>
   \<and> create_absolute_link (py_lib sample_net) sample_state
        \<lparr>scheme = '''', netloc = ''example.org'', path = ''/x'', query = '''', fragment = ''''\<rparr>
        ''//example.org/x''
       = Inr ''//example.org/x''"
proof -
  have split1: "py_urlsplit ''/about''
     = Inr \<lparr>scheme = '''', netloc = '''', path = ''/about'', query = '''', fragment = ''''\<rparr>"
    by code_simp
  have split2: "py_urlsplit ''//example.org/x''
     = Inr \<lparr>scheme = '''', netloc = ''example.org'', path = ''/x'', query = '''', fragment = ''''\<rparr>"
    by code_simp
  have join: "py_urljoin sample_base ''/about'' = Inr ''https://creativecommons.org/about''"
    by code_simp
  have base: "base_url sample_state = Some sample_base"
    by (simp add: sample_state_def)
  show ?thesis
    using create_absolute_link_joins_relative
            [of "\<lparr>scheme = '''', netloc = '''', path = ''/about'', query = '''', fragment = ''''\<rparr>"
                sample_state sample_base "py_lib sample_net" "''/about''"]
          create_absolute_link_joins_relative
            [of "\<lparr>scheme = '''', netloc = ''example.org'', path = ''/x'', query = '''',
                   fragment = ''''\<rparr>"
                sample_state sample_base "py_lib sample_net" "''//example.org/x''"]
          split1 split2 join base
    by (simp add: py_lib_def)
qed

text \<open>
  Claim C8. The result of \<^verbatim>\<open>check_existing(link, base_url)\<close> and the state it leaves
  do not depend on its \<^verbatim>\<open>base_url\<close> argument.
\<close>

theorem check_existing_ignores_base_url_argument:
  "check_existing lib link b1 st = check_existing lib link b2 st"
  by (simp add: check_existing_def)

text \<open>
  Claim C9. For an anchor whose \<^verbatim>\<open>href\<close> is the empty string, the loop body fails
  with IndexError at \<^verbatim>\<open>href[0]\<close>: the link is neither skipped nor checked, the loop over
  the page stops there, and the state is as before.
\<close>

theorem empty_href_raises_index_error:
  "attr_href link = Some '''' \<longrightarrow>
     check_link lib link st = (Inl IndexError, st)
     \<and> links_loop lib (link # links) st = (Inl IndexError, st)"
  by (simp add: check_link_def py_index_def)

theorem empty_href_raises_index_error_witness:
  "attr_href \<lparr>attr_href = Some ''''\<rparr> = Some ''''
   \<and> check_link (py_lib sample_net) \<lparr>attr_href = Some ''''\<rparr> sample_state
       = (Inl IndexError, sample_state)
   \<and> links_loop (py_lib sample_net) [\<lparr>attr_href = Some ''''\<rparr>, \<lparr>attr_href = Some ''/about''\<rparr>]
        sample_state = (Inl IndexError, sample_state)"
  using empty_href_raises_index_error
          [of "\<lparr>attr_href = Some ''''\<rparr>" "py_lib sample_net" sample_state
              "[\<lparr>attr_href = Some ''/about''\<rparr>]"]
  by simp

text \<open>
  Claim C7. An anchor whose \<^verbatim>\<open>href\<close> begins with \<open>#\<close> is skipped by the loop body
  before resolution and checking: the state, with the record of the calls of \<^verbatim>\<open>scrape\<close>,
  is unchanged; and a whole run is the same as the run on the pages without these
  anchors.
\<close>

theorem fragment_links_never_scraped:
  "(attr_href link = Some (CHR ''#'' # rest) \<longrightarrow> check_link lib link st = (Inr (), st))
   \<and> main lib (map without_fragment_links all_links) = main lib all_links"
proof
  show "attr_href link = Some (CHR ''#'' # rest) \<longrightarrow> check_link lib link st = (Inr (), st)"
    by (simp add: check_link_fragment is_fragment_link_def)
  show "main lib (map without_fragment_links all_links) = main lib all_links"
    by (simp add: main_def documents_loop_without_fragments)
qed

theorem fragment_links_never_scraped_witness:
  "attr_href \<lparr>attr_href = Some ''#top''\<rparr> = Some (CHR ''#'' # ''top'')
   \<and> check_link (py_lib sample_net) \<lparr>attr_href = Some ''#top''\<rparr> sample_state
       = (Inr (), sample_state)
   \<and> scrape_calls (snd (check_link (py_lib sample_net) \<lparr>attr_href = Some ''#top''\<rparr> sample_state))
       = []
   \<and> doc_page (without_fragment_links sample_document)
       = Inr [\<lparr>attr_href = Some ''/about''\<rparr>, \<lparr>attr_href = Some ''/about''\<rparr>,
              \<lparr>attr_href = Some ''mailto:info@creativecommons.org''\<rparr>,
              \<lparr>attr_href = Some ''/missing''\<rparr>, \<lparr>attr_href = None\<rparr>]
   \<and> main (py_lib sample_net) [without_fragment_links sample_document]
       = main (py_lib sample_net) [sample_document]"
  using fragment_links_never_scraped
          [of "\<lparr>attr_href = Some ''#top''\<rparr>" "''top''" "py_lib sample_net" sample_state
              "[sample_document]"]
  by (simp add: sample_state_def init_state_def sample_document_def without_fragment_links_def
        is_fragment_link_def)

text \<open>
  Claim C4. \<^verbatim>\<open>scrape\<close> classifies a URL by its parsed scheme. An empty scheme is
  replaced by \<open>https\<close>; for \<open>http\<close> and \<open>https\<close> (and the empty scheme) exactly one GET
  request is made, for the URL rebuilt from the parse, and the result is the status
  code of the response, or \<open>Timeout Error\<close> if the request times out. For \<open>mailto\<close> the
  result is \<open>ignore\<close>, for any other scheme \<open>Invalid protocol detected\<close>, and in both
  cases no request is made.
\<close>

theorem scrape_classifies_by_scheme:
  "urlsplit lib href = Inr analyse \<longrightarrow>
     (scheme analyse = '''' \<or> scheme analyse = ''http'' \<or> scheme analyse = ''https'' \<longrightarrow>
        get_calls (snd (scrape lib href st))
          = get_calls st @ [geturl lib (if scheme analyse = ''''
                                        then analyse\<lparr>scheme := ''https''\<rparr> else analyse)]
        \<and> (\<forall>code. requests_get lib (length (get_calls st))
                     (geturl lib (if scheme analyse = ''''
                                  then analyse\<lparr>scheme := ''https''\<rparr> else analyse))
                   = Response code
               \<longrightarrow> fst (scrape lib href st) = Inr (Code code))
        \<and> (requests_get lib (length (get_calls st))
              (geturl lib (if scheme analyse = ''''
                           then analyse\<lparr>scheme := ''https''\<rparr> else analyse))
              = Timeout
            \<longrightarrow> fst (scrape lib href st) = Inr (Text ''Timeout Error'')))
     \<and> (scheme analyse = ''mailto'' \<longrightarrow>
          fst (scrape lib href st) = Inr (Text ''ignore'')
          \<and> get_calls (snd (scrape lib href st)) = get_calls st)
     \<and> (scheme analyse \<notin> {'''', ''http'', ''https'', ''mailto''} \<longrightarrow>
          fst (scrape lib href st) = Inr (Text ''Invalid protocol detected'')
          \<and> get_calls (snd (scrape lib href st)) = get_calls st)"
  by (auto simp: scrape_def get_status_def Let_def split: net_outcome.splits)

theorem scrape_classifies_by_scheme_witness:
  "py_urlsplit ''//example.org/x''
     = Inr \<lparr>scheme = '''', netloc = ''example.org'', path = ''/x'', query = '''', fragment = ''''\<rparr>
   \<and> scrape (py_lib sample_net) ''//example.org/x'' sample_state
       = (Inr (Code 200), sample_state\<lparr>scrape_calls := [''//example.org/x''],
                                         get_calls := [''https://example.org/x'']\<rparr>)
   \<and> py_urlsplit ''https://slow.example.org/''
     = Inr \<lparr>scheme = ''https'', netloc = ''slow.example.org'', path = ''/'', query = '''',
            fragment = ''''\<rparr>
   \<and> fst (scrape (py_lib sample_net) ''https://slow.example.org/'' sample_state)
       = Inr (Text ''Timeout Error'')
   \<and> get_calls (snd (scrape (py_lib sample_net) ''https://slow.example.org/'' sample_state))
       = [''https://slow.example.org/'']
   \<and> py_urlsplit ''mailto:info@creativecommons.org''
     = Inr \<lparr>scheme = ''mailto'', netloc = '''', path = ''info@creativecommons.org'',
            query = '''', fragment = ''''\<rparr>
   \<and> fst (scrape (py_lib sample_net) ''mailto:info@creativecommons.org'' sample_state)
       = Inr (Text ''ignore'')
   \<and> get_calls (snd (scrape (py_lib sample_net) ''mailto:info@creativecommons.org'' sample_state))
       = []
   \<and> py_urlsplit ''ftp://example.org/f''
     = Inr \<lparr>scheme = ''ftp'', netloc = ''example.org'', path = ''/f'', query = '''',
            fragment = ''''\<rparr>
   \<and> fst (scrape (py_lib sample_net) ''ftp://example.org/f'' sample_state)
       = Inr (Text ''Invalid protocol detected'')
   \<and> get_calls (snd (scrape (py_lib sample_net) ''ftp://example.org/f'' sample_state)) = []"
proof -
  have s1: "py_urlsplit ''//example.org/x''
     = Inr \<lparr>scheme = '''', netloc = ''example.org'', path = ''/x'', query = '''', fragment = ''''\<rparr>"
    by code_simp
  have s2: "py_urlsplit ''https://slow.example.org/''
     = Inr \<lparr>scheme = ''https'', netloc = ''slow.example.org'', path = ''/'', query = '''',
            fragment = ''''\<rparr>"
    by code_simp
  have s3: "py_urlsplit ''mailto:info@creativecommons.org''
     = Inr \<lparr>scheme = ''mailto'', netloc = '''', path = ''info@creativecommons.org'',
            query = '''', fragment = ''''\<rparr>"
    by code_simp
  have s4: "py_urlsplit ''ftp://example.org/f''
     = Inr \<lparr>scheme = ''ftp'', netloc = ''example.org'', path = ''/f'', query = '''',
            fragment = ''''\<rparr>"
    by code_simp
  have u1: "py_urlunsplit \<lparr>scheme = ''https'', netloc = ''example.org'', path = ''/x'',
              query = '''', fragment = ''''\<rparr> = ''https://example.org/x''"
    by code_simp
  have u2: "py_urlunsplit \<lparr>scheme = ''https'', netloc = ''slow.example.org'', path = ''/'',
              query = '''', fragment = ''''\<rparr> = ''https://slow.example.org/''"
    by code_simp
  note inst =
    scrape_classifies_by_scheme [of "py_lib sample_net" "''//example.org/x''"
      "\<lparr>scheme = '''', netloc = ''example.org'', path = ''/x'', query = '''',
         fragment = ''''\<rparr>" sample_state]
    scrape_classifies_by_scheme [of "py_lib sample_net" "''https://slow.example.org/''"
      "\<lparr>scheme = ''https'', netloc = ''slow.example.org'', path = ''/'', query = '''',
         fragment = ''''\<rparr>" sample_state]
    scrape_classifies_by_scheme [of "py_lib sample_net" "''mailto:info@creativecommons.org''"
      "\<lparr>scheme = ''mailto'', netloc = '''', path = ''info@creativecommons.org'', query = '''',
         fragment = ''''\<rparr>" sample_state]
    scrape_classifies_by_scheme [of "py_lib sample_net" "''ftp://example.org/f''"
      "\<lparr>scheme = ''ftp'', netloc = ''example.org'', path = ''/f'', query = '''',
         fragment = ''''\<rparr>" sample_state]
  have state1: "snd (scrape (py_lib sample_net) ''//example.org/x'' sample_state)
       = sample_state\<lparr>scrape_calls := [''//example.org/x''],
                       get_calls := [''https://example.org/x'']\<rparr>"
    by (simp add: scrape_def get_status_def py_lib_def s1 u1 sample_net_def sample_state_def
          init_state_def)
  have res1: "fst (scrape (py_lib sample_net) ''//example.org/x'' sample_state) = Inr (Code 200)"
    using inst(1) s1 u1
    by (simp add: py_lib_def sample_net_def sample_state_def init_state_def)
  have full: "scrape (py_lib sample_net) ''//example.org/x'' sample_state
       = (Inr (Code 200), sample_state\<lparr>scrape_calls := [''//example.org/x''],
                                         get_calls := [''https://example.org/x'']\<rparr>)"
    using state1 res1 by (simp add: prod_eq_iff)
  show ?thesis
    using inst(2,3,4) s1 s2 s3 s4 u2 full
    by (simp add: py_lib_def sample_net_def sample_state_def init_state_def)
qed





text \<open>
  Claim C2. On a call of \<^verbatim>\<open>check_existing\<close> whose resolved URL has no entry in
  \<^verbatim>\<open>scraped_links\<close>, \<^verbatim>\<open>scrape\<close> is called once with that URL, and its result is stored
  under it and returned. On a call whose resolved URL has an entry, the stored status
  is returned and nothing changes: \<^verbatim>\<open>scrape\<close> is not called and no entry is written.
  Entries are never overwritten, and in a whole run no URL is given to \<^verbatim>\<open>scrape\<close> twice.
  The test \<^verbatim>\<open>if status:\<close> takes a stored status that counts as false for a missing entry;
  the network does not produce one (\<open>wf_net\<close>), and \<open>cache_inv\<close> says that none is stored.
\<close>

theorem check_existing_scrapes_once:
  "(attr_href link = Some href \<and> urlsplit lib href = Inr analyse
      \<and> create_absolute_link lib st analyse href = Inr key \<longrightarrow>
        (scraped_links st key = None \<longrightarrow>
           scrape_calls (snd (check_existing lib link b st)) = scrape_calls st @ [key]
           \<and> (\<forall>status st1. scrape lib key st = (Inr status, st1) \<longrightarrow>
                 check_existing lib link b st
                   = (Inr status, st1\<lparr>scraped_links := (scraped_links st1)(key \<mapsto> status)\<rparr>)))
        \<and> (\<forall>status. scraped_links st key = Some status \<and> (truthy status \<or> cache_inv st) \<longrightarrow>
              check_existing lib link b st = (Inr status, st)))
   \<and> cache_inv init_state
   \<and> (wf_net lib \<and> cache_inv st \<and> check_existing lib link b st = (r, st2) \<longrightarrow>
        ((\<exists>status. r = Inr status) \<longrightarrow> cache_inv st2)
        \<and> (\<forall>k v. scraped_links st k = Some v \<longrightarrow> scraped_links st2 k = Some v))
   \<and> (wf_net lib \<longrightarrow> distinct (scrape_calls (snd (main lib all_links))))"
proof (intro conjI)
  show "attr_href link = Some href \<and> urlsplit lib href = Inr analyse
      \<and> create_absolute_link lib st analyse href = Inr key \<longrightarrow>
        (scraped_links st key = None \<longrightarrow>
           scrape_calls (snd (check_existing lib link b st)) = scrape_calls st @ [key]
           \<and> (\<forall>status st1. scrape lib key st = (Inr status, st1) \<longrightarrow>
                 check_existing lib link b st
                   = (Inr status, st1\<lparr>scraped_links := (scraped_links st1)(key \<mapsto> status)\<rparr>)))
        \<and> (\<forall>status. scraped_links st key = Some status \<and> (truthy status \<or> cache_inv st) \<longrightarrow>
              check_existing lib link b st = (Inr status, st))"
  proof (intro impI conjI allI)
    assume res: "attr_href link = Some href \<and> urlsplit lib href = Inr analyse
        \<and> create_absolute_link lib st analyse href = Inr key"
      and miss: "scraped_links st key = None"
    then have call: "check_existing lib link b st = scrape_and_store lib key st"
      by (simp add: check_existing_def)
    show "scrape_calls (snd (check_existing lib link b st)) = scrape_calls st @ [key]"
      by (simp add: call scrape_and_store_fields)
    fix status st1
    assume "scrape lib key st = (Inr status, st1)"
    then show "check_existing lib link b st
        = (Inr status, st1\<lparr>scraped_links := (scraped_links st1)(key \<mapsto> status)\<rparr>)"
      by (simp add: call scrape_and_store_def)
  next
    fix status
    assume res: "attr_href link = Some href \<and> urlsplit lib href = Inr analyse
        \<and> create_absolute_link lib st analyse href = Inr key"
      and hit: "scraped_links st key = Some status \<and> (truthy status \<or> cache_inv st)"
    then have "truthy status" by (auto simp: cache_inv_def)
    with res hit show "check_existing lib link b st = (Inr status, st)"
      by (simp add: check_existing_def)
  qed
next
  show "cache_inv init_state" by (rule cache_inv_init)
next
  show "wf_net lib \<and> cache_inv st \<and> check_existing lib link b st = (r, st2) \<longrightarrow>
        ((\<exists>status. r = Inr status) \<longrightarrow> cache_inv st2)
        \<and> (\<forall>k v. scraped_links st k = Some v \<longrightarrow> scraped_links st2 k = Some v)"
  proof
    assume "wf_net lib \<and> cache_inv st \<and> check_existing lib link b st = (r, st2)"
    then have a: "wf_net lib" "cache_inv st" "check_existing lib link b st = (r, st2)"
      by simp_all
    show "((\<exists>status. r = Inr status) \<longrightarrow> cache_inv st2)
        \<and> (\<forall>k v. scraped_links st k = Some v \<longrightarrow> scraped_links st2 k = Some v)"
      using check_existing_inv(2,3) [OF a] by blast
  qed
next
  show "wf_net lib \<longrightarrow> distinct (scrape_calls (snd (main lib all_links)))"
    by (simp add: main_scrape_calls_distinct)
qed

theorem check_existing_scrapes_once_witness:
  "wf_net (py_lib sample_net)
   \<and> distinct (scrape_calls (snd (main (py_lib sample_net) [sample_document])))
   \<and> scrape_calls (snd (main (py_lib sample_net) [sample_document]))
       = [''https://creativecommons.org/about'', ''mailto:info@creativecommons.org'',
          ''https://creativecommons.org/missing'']
   \<and> scraped_links sample_state ''https://creativecommons.org/about'' = None
   \<and> scrape_calls (snd (check_existing (py_lib sample_net) \<lparr>attr_href = Some ''/about''\<rparr>
          sample_base sample_state)) = [''https://creativecommons.org/about'']
   \<and> scraped_links (snd (check_existing (py_lib sample_net) \<lparr>attr_href = Some ''/about''\<rparr>
          sample_base sample_state)) ''https://creativecommons.org/about'' = Some (Code 200)
   \<and> check_existing (py_lib sample_net) \<lparr>attr_href = Some ''/about''\<rparr> sample_base
        (snd (check_existing (py_lib sample_net) \<lparr>attr_href = Some ''/about''\<rparr> sample_base
                sample_state))
       = (Inr (Code 200),
          snd (check_existing (py_lib sample_net) \<lparr>attr_href = Some ''/about''\<rparr> sample_base
                 sample_state))"
proof -
  let ?lib = "py_lib sample_net"
  let ?link = "\<lparr>attr_href = Some ''/about''\<rparr>"
  let ?an = "\<lparr>scheme = '''', netloc = '''', path = ''/about'', query = '''', fragment = ''''\<rparr>"
  let ?key = "''https://creativecommons.org/about''"
  let ?st1 = "snd (check_existing ?lib ?link sample_base sample_state)"
  have wf: "wf_net ?lib"
    by (simp add: wf_net_def py_lib_def sample_net_def)
  have calls: "scrape_calls (snd (main ?lib [sample_document]))
       = [''https://creativecommons.org/about'', ''mailto:info@creativecommons.org'',
          ''https://creativecommons.org/missing'']"
    by code_simp
  have split: "urlsplit ?lib ''/about'' = Inr ?an"
    by code_simp
  have join: "urljoin ?lib sample_base ''/about'' = Inr ?key"
    by code_simp
  have base0: "base_url sample_state = Some sample_base"
    by (simp add: sample_state_def)
  have base1: "base_url ?st1 = Some sample_base"
    by (simp add: check_existing_fields base0)
  have key0: "create_absolute_link ?lib sample_state ?an ''/about'' = Inr ?key"
    by (simp add: create_absolute_link_def base0 join)
  have key1: "create_absolute_link ?lib ?st1 ?an ''/about'' = Inr ?key"
    by (simp add: create_absolute_link_def base1 join)
  have none0: "scraped_links sample_state ?key = None"
    by (simp add: sample_state_def init_state_def)
  have some1: "scraped_links ?st1 ?key = Some (Code 200)"
    by code_simp
  have truthy: "truthy (Code 200)"
    by (simp add: truthy_def)
  note miss = check_existing_scrapes_once
      [where lib = ?lib and link = ?link and href = "''/about''" and analyse = ?an
         and st = sample_state and key = ?key and b = sample_base]
  note hit = check_existing_scrapes_once
      [where lib = ?lib and link = ?link and href = "''/about''" and analyse = ?an
         and st = ?st1 and key = ?key and b = sample_base]
  note run = check_existing_scrapes_once
      [where lib = ?lib and all_links = "[sample_document]"]
  have once: "distinct (scrape_calls (snd (main ?lib [sample_document])))"
    using run wf by blast
  have first: "scrape_calls ?st1 = [?key]"
    using miss split key0 none0 by (simp add: sample_state_def init_state_def)
  have later: "check_existing ?lib ?link sample_base ?st1 = (Inr (Code 200), ?st1)"
    using hit split key1 some1 truthy by simp
  show ?thesis
    using wf once calls none0 first some1 later by blast
qed

text \<open>
  Claim C1, as the code has it. The key under which \<^verbatim>\<open>check_existing\<close> stores or finds
  the check result is the output of \<^verbatim>\<open>create_absolute_link\<close>: the join of the base URL
  and the href when the href has no scheme, no network location and a non-empty path,
  and the href itself otherwise; no other entry of the cache changes.
\<close>

theorem cache_key_is_resolver_output:
  "check_existing lib link b st = (Inr status, st1) \<longrightarrow>
     (\<exists>href analyse key.
        attr_href link = Some href \<and> urlsplit lib href = Inr analyse
        \<and> create_absolute_link lib st analyse href = Inr key
        \<and> (scheme analyse = '''' \<and> netloc analyse = '''' \<and> path analyse \<noteq> '''' \<longrightarrow>
              (\<exists>base. base_url st = Some base \<and> urljoin lib base href = Inr key))
        \<and> (scheme analyse \<noteq> '''' \<or> netloc analyse \<noteq> '''' \<or> path analyse = '''' \<longrightarrow> key = href)
        \<and> scraped_links st1 key = Some status
        \<and> (\<forall>k. k \<noteq> key \<longrightarrow> scraped_links st1 k = scraped_links st k))"
proof
  assume run: "check_existing lib link b st = (Inr status, st1)"
  then obtain href where href: "attr_href link = Some href"
    by (auto simp: check_existing_def split: option.splits)
  with run obtain analyse where an: "urlsplit lib href = Inr analyse"
    by (auto simp: check_existing_def split: sum.splits)
  with run href obtain key where key: "create_absolute_link lib st analyse href = Inr key"
    by (auto simp: check_existing_def split: sum.splits)
  have rel: "scheme analyse = '''' \<and> netloc analyse = '''' \<and> path analyse \<noteq> '''' \<longrightarrow>
              (\<exists>base. base_url st = Some base \<and> urljoin lib base href = Inr key)"
    using key by (auto simp: create_absolute_link_def split: option.splits if_splits)
  have abs: "scheme analyse \<noteq> '''' \<or> netloc analyse \<noteq> '''' \<or> path analyse = '''' \<longrightarrow> key = href"
    using key by (auto simp: create_absolute_link_def)
  have "check_existing lib link b st = (Inr status, st) \<and> scraped_links st key = Some status
        \<or> scrape_and_store lib key st = (Inr status, st1)"
    using run href an key
    by (auto simp: check_existing_def split: option.splits if_splits)
  then have "scraped_links st1 key = Some status
        \<and> (\<forall>k. k \<noteq> key \<longrightarrow> scraped_links st1 k = scraped_links st k)"
  proof
    assume "check_existing lib link b st = (Inr status, st) \<and> scraped_links st key = Some status"
    with run show ?thesis by simp
  next
    assume "scrape_and_store lib key st = (Inr status, st1)"
    from scrape_and_store_cache [OF this] show ?thesis by simp
  qed
  with href an key rel abs
  show "\<exists>href analyse key.
        attr_href link = Some href \<and> urlsplit lib href = Inr analyse
        \<and> create_absolute_link lib st analyse href = Inr key
        \<and> (scheme analyse = '''' \<and> netloc analyse = '''' \<and> path analyse \<noteq> '''' \<longrightarrow>
              (\<exists>base. base_url st = Some base \<and> urljoin lib base href = Inr key))
        \<and> (scheme analyse \<noteq> '''' \<or> netloc analyse \<noteq> '''' \<or> path analyse = '''' \<longrightarrow> key = href)
        \<and> scraped_links st1 key = Some status
        \<and> (\<forall>k. k \<noteq> key \<longrightarrow> scraped_links st1 k = scraped_links st k)"
    by blast
qed

text \<open>
  Claim C1, as stated, fails: the protocol-relative href \<^verbatim>\<open>//example.org/x\<close> has no
  scheme, the request goes to \<^verbatim>\<open>https://example.org/x\<close>, and the result is stored under
  the href itself, whose scheme is empty; the cache has no other key.
\<close>

theorem cache_key_keeps_empty_scheme:
  "py_urlsplit ''//example.org/x''
     = Inr \<lparr>scheme = '''', netloc = ''example.org'', path = ''/x'', query = '''', fragment = ''''\<rparr>
   \<and> check_existing (py_lib sample_net) \<lparr>attr_href = Some ''//example.org/x''\<rparr> sample_base
        sample_state
       = (Inr (Code 200),
          sample_state\<lparr>scraped_links := [''//example.org/x'' \<mapsto> Code 200],
                        scrape_calls := [''//example.org/x''],
                        get_calls := [''https://example.org/x'']\<rparr>)
   \<and> scraped_links (snd (check_existing (py_lib sample_net)
          \<lparr>attr_href = Some ''//example.org/x''\<rparr> sample_base sample_state))
        ''https://example.org/x'' = None"
proof -
  have s1: "py_urlsplit ''//example.org/x''
     = Inr \<lparr>scheme = '''', netloc = ''example.org'', path = ''/x'', query = '''', fragment = ''''\<rparr>"
    by code_simp
  have u1: "py_urlunsplit \<lparr>scheme = ''https'', netloc = ''example.org'', path = ''/x'',
              query = '''', fragment = ''''\<rparr> = ''https://example.org/x''"
    by code_simp
  have run: "check_existing (py_lib sample_net) \<lparr>attr_href = Some ''//example.org/x''\<rparr> sample_base
        sample_state
       = (Inr (Code 200),
          sample_state\<lparr>scraped_links := [''//example.org/x'' \<mapsto> Code 200],
                        scrape_calls := [''//example.org/x''],
                        get_calls := [''https://example.org/x'']\<rparr>)"
    by (simp add: check_existing_def create_absolute_link_def scrape_and_store_def scrape_def
          get_status_def py_lib_def s1 u1 sample_net_def sample_state_def init_state_def)
  show ?thesis
    by (simp add: s1 run)
qed

theorem cache_key_is_resolver_output_witness:
  "check_existing (py_lib sample_net) \<lparr>attr_href = Some ''/about''\<rparr> sample_base sample_state
     = (Inr (Code 200),
        snd (check_existing (py_lib sample_net) \<lparr>attr_href = Some ''/about''\<rparr> sample_base
               sample_state))
   \<and> scraped_links (snd (check_existing (py_lib sample_net) \<lparr>attr_href = Some ''/about''\<rparr>
          sample_base sample_state)) ''https://creativecommons.org/about'' = Some (Code 200)
   \<and> (\<exists>href analyse key.
        attr_href \<lparr>attr_href = Some ''/about''\<rparr> = Some href
        \<and> urlsplit (py_lib sample_net) href = Inr analyse
        \<and> create_absolute_link (py_lib sample_net) sample_state analyse href = Inr key
        \<and> (scheme analyse = '''' \<and> netloc analyse = '''' \<and> path analyse \<noteq> '''' \<longrightarrow>
              (\<exists>base. base_url sample_state = Some base
                  \<and> urljoin (py_lib sample_net) base href = Inr key))
        \<and> (scheme analyse \<noteq> '''' \<or> netloc analyse \<noteq> '''' \<or> path analyse = '''' \<longrightarrow> key = href)
        \<and> scraped_links (snd (check_existing (py_lib sample_net) \<lparr>attr_href = Some ''/about''\<rparr>
               sample_base sample_state)) key = Some (Code 200)
        \<and> (\<forall>k. k \<noteq> key \<longrightarrow>
              scraped_links (snd (check_existing (py_lib sample_net) \<lparr>attr_href = Some ''/about''\<rparr>
                 sample_base sample_state)) k = scraped_links sample_state k))"
proof -
  have r: "fst (check_existing (py_lib sample_net) \<lparr>attr_href = Some ''/about''\<rparr> sample_base
             sample_state) = Inr (Code 200)"
    by code_simp
  have c: "scraped_links (snd (check_existing (py_lib sample_net) \<lparr>attr_href = Some ''/about''\<rparr>
          sample_base sample_state)) ''https://creativecommons.org/about'' = Some (Code 200)"
    by code_simp
  have m: "check_existing (py_lib sample_net) \<lparr>attr_href = Some ''/about''\<rparr> sample_base sample_state
     = (Inr (Code 200),
        snd (check_existing (py_lib sample_net) \<lparr>attr_href = Some ''/about''\<rparr> sample_base
               sample_state))"
    using r by (simp add: prod_eq_iff)
  from cache_key_is_resolver_output
         [of "py_lib sample_net" "\<lparr>attr_href = Some ''/about''\<rparr>" sample_base sample_state
             "Code 200"
             "snd (check_existing (py_lib sample_net) \<lparr>attr_href = Some ''/about''\<rparr> sample_base
                     sample_state)"] m c
  show ?thesis by blast
qed

end
